theory Spec2Isabelle
  imports Complex_Main
begin

section \<open>Data model\<close>

text \<open>
  The two actions of the game, \<^verbatim>\<open>C, D = Action.C, Action.D\<close>, and the exceptions
  the modelled code can raise. \<open>TypeError\<close>, \<open>ValueError\<close> and \<open>IndexError\<close> are
  Python's own; the other four are the error classes of the specification.
\<close>

datatype action = C | D

datatype error =
    ConfigurationError
  | InsufficientSeedError
  | KeyMismatchError
  | DeserializationError
  | TypeError
  | ValueError
  | IndexError

text \<open>
  \<^verbatim>\<open>Plays\<close> is a triple: as \<open>parameters\<close> it holds the three depths (Python
  integers), as a table key it holds the three windows of actions.
\<close>

type_synonym plays = "int \<times> int \<times> int"
type_synonym key = "action list \<times> action list \<times> action list"

text \<open>
  A value stored in a lookup table of \<^verbatim>\<open>Gambler\<close> is an \<^verbatim>\<open>Action\<close> or a float
  (\<^verbatim>\<open>actions_or_float\<close> in \<^verbatim>\<open>Gambler.strategy\<close>). Floats are modelled as reals: the
  properties below compare weights and clamp them and none depends on rounding.
\<close>

datatype actions_or_float = Action action | Float real

section \<open>The store and the random sources\<close>

text \<open>
  Python lists are mutable objects reached through references, and \<^verbatim>\<open>mutate_pattern\<close>
  writes into the list it is given. The store maps an address to the list that lives
  there; \<open>next_addr\<close> is the first address not yet handed out. The three random
  sources are the sequences of results still to come: of \<^verbatim>\<open>np.random.random\<close>, of
  \<^verbatim>\<open>random.random()\<close> (behind \<^verbatim>\<open>random.uniform\<close>), and of the raw integers behind
  \<^verbatim>\<open>random.choice\<close> and \<^verbatim>\<open>random.randint\<close>. Every sequence of outcomes the real
  generators can produce is one choice of these sequences.
\<close>

record world =
  heap :: "nat \<Rightarrow> real list"
  next_addr :: nat
  np_random :: "nat \<Rightarrow> real"
  py_random :: "nat \<Rightarrow> real"
  py_randbelow :: "nat \<Rightarrow> nat"

definition list_new :: "real list \<Rightarrow> world \<Rightarrow> nat \<times> world" where
  "list_new xs w =
     (next_addr w, w\<lparr>heap := (heap w)(next_addr w := xs), next_addr := Suc (next_addr w)\<rparr>)"

definition list_store :: "nat \<Rightarrow> nat \<Rightarrow> real \<Rightarrow> world \<Rightarrow> world" where
  "list_store a i v w = w\<lparr>heap := (heap w)(a := (heap w a)[i := v])\<rparr>"

definition np_random_random :: "nat \<Rightarrow> world \<Rightarrow> real list \<times> world" where
  "np_random_random n w =
     (map (np_random w) [0..<n], w\<lparr>np_random := (\<lambda>i. np_random w (i + n))\<rparr>)"

definition random_random :: "world \<Rightarrow> real \<times> world" where
  "random_random w = (py_random w 0, w\<lparr>py_random := (\<lambda>i. py_random w (Suc i))\<rparr>)"

definition random_uniform :: "real \<Rightarrow> real \<Rightarrow> world \<Rightarrow> real \<times> world" where
  "random_uniform a b w = (let (u, w') = random_random w in (a + (b - a) * u, w'))"

definition randbelow :: "nat \<Rightarrow> world \<Rightarrow> nat \<times> world" where
  "randbelow n w = (py_randbelow w 0 mod n, w\<lparr>py_randbelow := (\<lambda>i. py_randbelow w (Suc i))\<rparr>)"

definition choice :: "'a list \<Rightarrow> world \<Rightarrow> 'a \<times> world" where
  "choice xs w = (let (i, w') = randbelow (length xs) w in (xs ! i, w'))"

definition randint :: "nat \<Rightarrow> nat \<Rightarrow> world \<Rightarrow> nat \<times> world" where
  "randint a b w = (let (i, w') = randbelow (b - a + 1) w in (a + i, w'))"

section \<open>Key space and lookup table\<close>

text \<open>
  Modelled from the spec: \<^verbatim>\<open>create_lookup_table_keys\<close> and \<^verbatim>\<open>LookupTable\<close> live in
  \<^verbatim>\<open>lookerup.py\<close>, which is not among the sources. Section 4.1 of the specification: the
  keys are the product of the three windows, each window ranging over all action
  sequences of its depth in lexicographic order with Cooperate before Defect, the
  self window outermost, then the opponent window, then the opponent opening window.
\<close>

fun action_sequences :: "nat \<Rightarrow> action list list" where
  "action_sequences 0 = [[]]"
| "action_sequences (Suc n) =
     map ((#) C) (action_sequences n) @ map ((#) D) (action_sequences n)"

definition create_lookup_table_keys :: "nat \<Rightarrow> nat \<Rightarrow> nat \<Rightarrow> key list" where
  "create_lookup_table_keys player_depth op_depth op_openings_depth =
     concat (map (\<lambda>s. concat (map (\<lambda>t. map (\<lambda>u. (s, t, u))
       (action_sequences op_openings_depth)) (action_sequences op_depth)))
       (action_sequences player_depth))"

text \<open>
  Modelled from the spec: \<^verbatim>\<open>LookupTable.from_pattern\<close> (section 4.2) fails with a
  size-mismatch error when the pattern's length is not the size of the key space and
  otherwise pairs keys and weights by position; negative depths are a
  \<open>ConfigurationError\<close> (section 7). The table is the association list of the
  dictionary, in insertion order.
\<close>

definition from_pattern :: "'v list \<Rightarrow> int \<Rightarrow> int \<Rightarrow> int \<Rightarrow> error + (key \<times> 'v) list" where
  "from_pattern pattern player_depth op_depth op_openings_depth =
     (if player_depth < 0 \<or> op_depth < 0 \<or> op_openings_depth < 0 then Inl ConfigurationError
      else
        let keys = create_lookup_table_keys (nat player_depth) (nat op_depth)
                     (nat op_openings_depth)
        in if length keys \<noteq> length pattern then Inl ConfigurationError
           else Inr (zip keys pattern))"

text \<open>
  Modelled from the spec: \<^verbatim>\<open>LookupTable.get\<close> (section 4.2) fails with a key-not-found
  error for a key the table does not hold.
\<close>

definition get :: "(key \<times> 'v) list \<Rightarrow> key \<Rightarrow> error + 'v" where
  "get table k = (case map_of table k of None \<Rightarrow> Inl KeyMismatchError | Some v \<Rightarrow> Inr v)"

section \<open>The decision function\<close>

text \<open>
  Modelled from the spec: \<^verbatim>\<open>LookerUp.strategy\<close> is not among the sources. Section 4.3:
  a window of depth \<open>n\<close> is the most recent \<open>n\<close> entries of the history, with the seed
  actions put in front of a history that is still shorter than \<open>n\<close>, and an
  \<open>InsufficientSeedError\<close> when even that is too short; the opening window is the first
  entries of the opponent's history; the key made of the three windows is looked up.
\<close>

definition history_window :: "nat \<Rightarrow> action list \<Rightarrow> action list \<Rightarrow> error + action list" where
  "history_window n seed_actions history =
     (if length history < n then
        (let padded = seed_actions @ history
         in if length padded < n then Inl InsufficientSeedError
            else Inr (drop (length padded - n) padded))
      else Inr (drop (length history - n) history))"

definition LookerUp_strategy ::
  "plays \<Rightarrow> (key \<times> 'v) list \<Rightarrow> action list \<Rightarrow> action list \<Rightarrow> action list \<Rightarrow> error + 'v" where
  "LookerUp_strategy parameters table seed_actions own_history opponent_history =
     (case parameters of (self_depth, op_depth, op_openings_depth) \<Rightarrow>
        (case history_window (nat self_depth) seed_actions own_history of
           Inl e \<Rightarrow> Inl e
         | Inr player_window \<Rightarrow>
             (case history_window (nat op_depth) seed_actions opponent_history of
                Inl e \<Rightarrow> Inl e
              | Inr opponent_window \<Rightarrow>
                  get table (player_window, opponent_window,
                    take (nat op_openings_depth) opponent_history))))"

text \<open>
  Modelled from the spec: \<^verbatim>\<open>random_choice\<close> of \<^verbatim>\<open>axelrod.random_\<close> is not among the
  sources. Section 4.3: the weight is the probability of Cooperate; a uniform sample
  \<open>u\<close> is drawn and the action is Cooperate if \<open>u < weight\<close>, else Defect.
\<close>

definition random_choice :: "real \<Rightarrow> world \<Rightarrow> action \<times> world" where
  "random_choice p w =
     (let (u, w') = random_random w in (if u < p then C else D, w'))"

text \<open>
  \<^verbatim>\<open>Gambler.strategy\<close>: an \<^verbatim>\<open>Action\<close> found by the lookup is returned as it is, a float
  goes to \<^verbatim>\<open>random_choice\<close>.
\<close>

definition Gambler_strategy ::
  "plays \<Rightarrow> (key \<times> actions_or_float) list \<Rightarrow> action list \<Rightarrow> action list \<Rightarrow> action list
     \<Rightarrow> world \<Rightarrow> error + (action \<times> world)" where
  "Gambler_strategy parameters table seed_actions own_history opponent_history w =
     (case LookerUp_strategy parameters table seed_actions own_history opponent_history of
        Inl e \<Rightarrow> Inl e
      | Inr (Action a) \<Rightarrow> Inr (a, w)
      | Inr (Float p) \<Rightarrow> Inr (random_choice p w))"

section \<open>EvolvableGambler\<close>

text \<open>
  Modelled from the spec: the constructors of \<^verbatim>\<open>LookerUp\<close> and \<^verbatim>\<open>EvolvableLookerUp\<close>
  are not among the sources. Sections 3, 4.2 and 7: construction builds the table from
  the pattern and the parameters (a \<open>ConfigurationError\<close> for a pattern of the wrong
  length or a negative depth) and is invalid when the seed actions are shorter than
  the largest depth. The pattern, the parameters and the seed actions are stored as
  they are given.
\<close>

definition LookerUp_init ::
  "real list \<Rightarrow> plays \<Rightarrow> action list \<Rightarrow> error + (key \<times> real) list" where
  "LookerUp_init pattern_values parameters initial_actions =
     (case parameters of (self_depth, op_depth, op_openings_depth) \<Rightarrow>
        (case from_pattern pattern_values self_depth op_depth op_openings_depth of
           Inl e \<Rightarrow> Inl e
         | Inr table \<Rightarrow>
             if int (length initial_actions) < max self_depth (max op_depth op_openings_depth)
             then Inl InsufficientSeedError
             else Inr table))"

text \<open>
  The attributes of an instance that the modelled methods read and write. \<open>pattern\<close>
  is a reference into the store; \<open>lookup\<close> is the attribute \<^verbatim>\<open>_lookup\<close>.
\<close>

record gambler =
  parameters :: plays
  pattern :: nat
  initial_actions :: "action list"
  mutation_probability :: "real option"
  lookup :: "(key \<times> real) list"

text \<open>
  \<^verbatim>\<open>EvolvableGambler.__init__\<close>, called with \<^verbatim>\<open>pattern\<close>, \<^verbatim>\<open>parameters\<close>,
  \<^verbatim>\<open>initial_actions\<close> and \<^verbatim>\<open>mutation_probability\<close> (no caller here passes a
  \<^verbatim>\<open>lookup_dict\<close>): the constructor of \<^verbatim>\<open>EvolvableLookerUp\<close> runs, then
  \<^verbatim>\<open>self.pattern = list(self.pattern)\<close> copies the pattern into a list of the
  instance's own, then the constructor of \<^verbatim>\<open>Gambler\<close> runs on that list.

  The attribute \<^verbatim>\<open>self.mutation_probability\<close> is set by the constructor of
  \<^verbatim>\<open>EvolvableLookerUp\<close> and only read back here. Neither the sources nor the
  specification say what that constructor stores, in particular for the default
  \<^verbatim>\<open>None\<close>, so it is a parameter of the model: \<open>stored_mp\<close> gives the stored value
  from the constructor's arguments (pattern, parameters, seed actions and the mutation
  probability passed).
\<close>

type_synonym stored_probability =
  "real list \<Rightarrow> plays \<Rightarrow> action list \<Rightarrow> real option \<Rightarrow> real option"

definition EvolvableGambler_init ::
  "stored_probability \<Rightarrow> nat \<Rightarrow> plays \<Rightarrow> action list \<Rightarrow> real option \<Rightarrow> world
     \<Rightarrow> error + (gambler \<times> world)" where
  "EvolvableGambler_init stored_mp pattern_ref params actions mp w =
     (case LookerUp_init (heap w pattern_ref) params actions of
        Inl e \<Rightarrow> Inl e
      | Inr _ \<Rightarrow>
          (let (a, w1) = list_new (heap w pattern_ref) w
           in case LookerUp_init (heap w1 a) params actions of
                Inl e \<Rightarrow> Inl e
              | Inr table \<Rightarrow>
                  Inr (\<lparr>parameters = params, pattern = a, initial_actions = actions,
                        mutation_probability = stored_mp (heap w pattern_ref) params actions mp,
                        lookup = table\<rparr>, w1)))"

text \<open>
  \<^verbatim>\<open>receive_vector\<close>: the pattern is replaced first, then the table is rebuilt. When
  \<^verbatim>\<open>from_pattern\<close> raises, the instance keeps the new pattern and the old table; the
  error carries that state.
\<close>

definition receive_vector :: "gambler \<Rightarrow> nat \<Rightarrow> world \<Rightarrow> (error \<times> gambler) + gambler" where
  "receive_vector self vector w =
     (let self1 = self\<lparr>pattern := vector\<rparr>
      in case parameters self1 of (self_depth, op_depth, op_openings_depth) \<Rightarrow>
           (case from_pattern (heap w (pattern self1)) self_depth op_depth op_openings_depth of
              Inl e \<Rightarrow> Inl (e, self1)
            | Inr table \<Rightarrow> Inr (self1\<lparr>lookup := table\<rparr>)))"

text \<open>
  \<^verbatim>\<open>mutate_pattern\<close>: one step of the loop over \<^verbatim>\<open>enumerate(pattern)\<close>, writing into
  the list at address \<open>pattern\<close>, and the whole method. A mutation probability
  \<^verbatim>\<open>None\<close> makes the first comparison \<^verbatim>\<open>randoms[i] < mutation_probability\<close> raise
  \<open>TypeError\<close>.
\<close>

definition mutate_step :: "nat \<Rightarrow> real \<Rightarrow> real list \<Rightarrow> nat \<Rightarrow> world \<Rightarrow> world" where
  "mutate_step pattern_ref mp randoms i w =
     (if randoms ! i < mp then
        (let (u, w1) = random_uniform (- 1) 1 w;
             ep = u / 4;
             w2 = list_store pattern_ref i (heap w1 pattern_ref ! i + ep) w1;
             w3 = (if heap w2 pattern_ref ! i < 0 then list_store pattern_ref i 0 w2 else w2)
         in if heap w3 pattern_ref ! i > 1 then list_store pattern_ref i 1 w3 else w3)
      else w)"

definition mutate_pattern :: "nat \<Rightarrow> real option \<Rightarrow> world \<Rightarrow> error + (nat \<times> world)" where
  "mutate_pattern pattern_ref mp w =
     (let n = length (heap w pattern_ref);
          (randoms, w1) = np_random_random n w
      in case mp of
           None \<Rightarrow> if n = 0 then Inr (pattern_ref, w1) else Inl TypeError
         | Some p \<Rightarrow> Inr (pattern_ref, fold (mutate_step pattern_ref p randoms) [0..<n] w1))"

text \<open>
  \<^verbatim>\<open>[choice((C, D)) for _ in range(num_actions)]\<close>.
\<close>

fun choices :: "nat \<Rightarrow> world \<Rightarrow> action list \<times> world" where
  "choices 0 w = ([], w)"
| "choices (Suc n) w =
     (let (a, w1) = choice [C, D] w; (as, w2) = choices n w1 in (a # as, w2))"

definition mutate ::
  "stored_probability \<Rightarrow> gambler \<Rightarrow> world \<Rightarrow> error + (gambler \<times> world)" where
  "mutate stored_mp self w =
     (case mutate_pattern (pattern self) (mutation_probability self) w of
        Inl e \<Rightarrow> Inl e
      | Inr (pattern_ref, w1) \<Rightarrow>
          (case parameters self of (plays, op_plays, op_start_plays) \<Rightarrow>
             (let num_actions = max plays (max op_plays op_start_plays);
                  (actions, w2) = choices (nat num_actions) w1
              in EvolvableGambler_init stored_mp pattern_ref (parameters self) actions
                   (mutation_probability self) w2)))"

text \<open>
  \<^verbatim>\<open>crossover\<close>: the two slices and their concatenation are new lists; only the
  concatenation is kept in the store, the slices are not referenced again.
\<close>

definition crossover ::
  "stored_probability \<Rightarrow> gambler \<Rightarrow> gambler \<Rightarrow> world \<Rightarrow> error + (gambler \<times> world)" where
  "crossover stored_mp self other w =
     (let pattern1 = pattern self;
          pattern2 = pattern other;
          (cross_point, w1) = randint 0 (length (heap w pattern1)) w;
          (offspring_pattern, w2) =
             list_new (take cross_point (heap w1 pattern1) @ drop cross_point (heap w1 pattern2)) w1
      in EvolvableGambler_init stored_mp offspring_pattern (parameters self)
           (initial_actions self)
           (mutation_probability self) w2)"

section \<open>Serialization\<close>

text \<open>
  Python's \<^verbatim>\<open>str.split(sep)\<close> for a separator of one character, and \<^verbatim>\<open>sep.join\<close>.
  Splitting always yields at least one field; the empty string yields one empty field.
\<close>

fun str_split :: "char \<Rightarrow> string \<Rightarrow> string list" where
  "str_split c [] = [[]]"
| "str_split c (x # xs) =
     (if x = c then [] # str_split c xs
      else (case str_split c xs of [] \<Rightarrow> [[x]] | y # ys \<Rightarrow> (x # y) # ys))"

fun str_join :: "string \<Rightarrow> string list \<Rightarrow> string" where
  "str_join sep [] = []"
| "str_join sep [x] = x"
| "str_join sep (x # y # ys) = x @ sep @ str_join sep (y # ys)"

text \<open>
  \<^verbatim>\<open>'{}'.format(n)\<close> and \<^verbatim>\<open>int(s)\<close> for Python integers in decimal notation. \<open>int_of_str\<close>
  reads an optional minus sign followed by digits; the other spellings that \<^verbatim>\<open>int\<close>
  accepts (a plus sign, surrounding white space, underscores between digits) are never
  written by \<^verbatim>\<open>serialize_parameters\<close> and count as \<open>ValueError\<close> here.
\<close>

definition digit_char :: "nat \<Rightarrow> char" where
  "digit_char n = ''0123456789'' ! n"

function str_nat :: "nat \<Rightarrow> string" where
  "str_nat n = (if n < 10 then [digit_char n] else str_nat (n div 10) @ [digit_char (n mod 10)])"
  by pat_completeness auto
termination
  by (relation "measure id") auto

declare str_nat.simps [simp del]

definition str_int :: "int \<Rightarrow> string" where
  "str_int i = (if i < 0 then CHR ''-'' # str_nat (nat (- i)) else str_nat (nat i))"

definition is_digit :: "char \<Rightarrow> bool" where
  "is_digit c = (48 \<le> (of_char c :: nat) \<and> (of_char c :: nat) \<le> 57)"

definition nat_of_str :: "string \<Rightarrow> error + nat" where
  "nat_of_str s =
     (if s \<noteq> [] \<and> list_all is_digit s
      then Inr (foldl (\<lambda>n c. 10 * n + (of_char c - 48)) 0 s)
      else Inl ValueError)"

definition int_of_str :: "string \<Rightarrow> error + int" where
  "int_of_str s =
     (case s of
        [] \<Rightarrow> Inl ValueError
      | c # ds \<Rightarrow>
          if c = CHR ''-'' then map_sum id (\<lambda>n. - int n) (nat_of_str ds)
          else map_sum id int (nat_of_str s))"

text \<open>
  \<^verbatim>\<open>map(f, xs)\<close> forced by \<^verbatim>\<open>tuple\<close> or \<^verbatim>\<open>list\<close>: the first element on which \<open>f\<close>
  raises ends the traversal with that error.
\<close>

fun traverse :: "('a \<Rightarrow> error + 'b) \<Rightarrow> 'a list \<Rightarrow> error + 'b list" where
  "traverse f [] = Inr []"
| "traverse f (x # xs) =
     (case f x of
        Inl e \<Rightarrow> Inl e
      | Inr y \<Rightarrow> (case traverse f xs of Inl e \<Rightarrow> Inl e | Inr ys \<Rightarrow> Inr (y # ys)))"

text \<open>
  Modelled from the spec: \<^verbatim>\<open>actions_to_str\<close> and \<^verbatim>\<open>str_to_actions\<close> of
  \<^verbatim>\<open>axelrod.action\<close> are not among the sources. Section 6: the seed actions are
  rendered as single letters, one per action, in history order; section 7: an invalid
  action letter is a \<open>DeserializationError\<close>.
\<close>

definition actions_to_str :: "action list \<Rightarrow> string" where
  "actions_to_str actions = map (\<lambda>a. case a of C \<Rightarrow> CHR ''C'' | D \<Rightarrow> CHR ''D'') actions"

definition str_to_actions :: "string \<Rightarrow> error + action list" where
  "str_to_actions s =
     traverse (\<lambda>c. if c = CHR ''C'' then Inr C else if c = CHR ''D'' then Inr D
                   else Inl DeserializationError) s"

text \<open>
  \<^verbatim>\<open>serialize_parameters\<close> and \<^verbatim>\<open>deserialize_parameters\<close>. Python's \<^verbatim>\<open>str\<close> and
  \<^verbatim>\<open>float\<close> on floating-point numbers are not modelled: they are the parameters
  \<open>str_float\<close> and \<open>float_of_str\<close>. In \<^verbatim>\<open>deserialize_parameters\<close> the slice
  \<^verbatim>\<open>s[0:3]\<close> never raises, \<^verbatim>\<open>s[3]\<close> and \<^verbatim>\<open>s[4]\<close> raise \<open>IndexError\<close> on a
  string with too few fields, fields after the fifth are ignored, and the list of
  parsed weights is a new list. The parameters have three entries whenever \<^verbatim>\<open>s[3]\<close>
  exists, so the last case is never reached. No mutation probability is passed to the
  constructor: it receives the default \<^verbatim>\<open>None\<close> of its signature.
\<close>

definition serialize_parameters :: "(real \<Rightarrow> string) \<Rightarrow> gambler \<Rightarrow> world \<Rightarrow> string" where
  "serialize_parameters str_float self w =
     (case parameters self of (self_depth, op_depth, op_openings_depth) \<Rightarrow>
        str_int self_depth @ '':'' @ str_int op_depth @ '':'' @ str_int op_openings_depth @ '':''
        @ str_join ''|'' (map str_float (heap w (pattern self))) @ '':''
        @ actions_to_str (initial_actions self))"

definition deserialize_parameters ::
  "stored_probability \<Rightarrow> (string \<Rightarrow> error + real) \<Rightarrow> string \<Rightarrow> world
     \<Rightarrow> error + (gambler \<times> world)" where
  "deserialize_parameters stored_mp float_of_str serialized w =
     (let s = str_split CHR '':'' serialized
      in case traverse int_of_str (take 3 s) of
           Inl e \<Rightarrow> Inl e
         | Inr params \<Rightarrow>
             if length s \<le> 3 then Inl IndexError
             else
               (case traverse float_of_str (str_split CHR ''|'' (s ! 3)) of
                  Inl e \<Rightarrow> Inl e
                | Inr pattern_values \<Rightarrow>
                    if length s \<le> 4 then Inl IndexError
                    else
                      (case str_to_actions (s ! 4) of
                         Inl e \<Rightarrow> Inl e
                       | Inr actions \<Rightarrow>
                           (let (pattern_ref, w1) = list_new pattern_values w
                            in case params of
                                 [self_depth, op_depth, op_openings_depth] \<Rightarrow>
                                   EvolvableGambler_init stored_mp pattern_ref
                                     (self_depth, op_depth, op_openings_depth) actions None w1
                               | _ \<Rightarrow> Inl ValueError))))"

text \<open>
  What the round trip needs of the two float conversions on a weight \<open>v\<close>: parsing the
  text of \<open>v\<close> gives \<open>v\<close> back, and the text holds neither of the two separators.
\<close>

definition float_text_ok :: "(real \<Rightarrow> string) \<Rightarrow> (string \<Rightarrow> error + real) \<Rightarrow> real \<Rightarrow> bool" where
  "float_text_ok str_float float_of_str v =
     (float_of_str (str_float v) = Inr v
      \<and> CHR '':'' \<notin> set (str_float v) \<and> CHR ''|'' \<notin> set (str_float v))"

section \<open>Anand\<close>

text \<open>
  The state of an \<^verbatim>\<open>Anand\<close> instance that the modelled methods touch: the attribute
  holding the four-vector, \<open>None\<close> while it has not been set.
\<close>

record anand =
  four_vector :: "((action \<times> action) \<times> real) list option"

text \<open>
  Modelled from the spec: \<^verbatim>\<open>set_four_vector\<close> belongs to \<^verbatim>\<open>MemoryOnePlayer\<close>, which is
  not among the sources. Sections 3 and 4.5: a four-vector is exactly four weights, one
  per pair of previous actions in the order (C,C), (C,D), (D,C), (D,D) from the deciding
  player's side, and construction validates that the four values lie in \<open>[0, 1]\<close>.
\<close>

definition set_four_vector :: "anand \<Rightarrow> real list \<Rightarrow> error + anand" where
  "set_four_vector self v =
     (if length v = 4 \<and> list_all (\<lambda>p. 0 \<le> p \<and> p \<le> 1) v
      then Inr (self\<lparr>four_vector := Some (zip [(C, C), (C, D), (D, C), (D, D)] v)\<rparr>)
      else Inl ConfigurationError)"

text \<open>
  \<^verbatim>\<open>Anand.set_initial_four_vector\<close> is \<^verbatim>\<open>pass\<close>; \<^verbatim>\<open>Anand.receive_match_attributes\<close>
  builds the list of its four constants and hands it to \<^verbatim>\<open>set_four_vector\<close>.
\<close>

definition set_initial_four_vector :: "anand \<Rightarrow> 'a \<Rightarrow> anand" where
  "set_initial_four_vector self v = self"

definition receive_match_attributes :: "anand \<Rightarrow> error + anand" where
  "receive_match_attributes self =
     (let p1 = 7 / 9; p2 = 0; p3 = 8 / 9; p4 = 0;
          v = [p1, p2, p3, p4]
      in set_four_vector self v)"

section \<open>Well-formed instances and a running example\<close>

text \<open>
  The size of the key space of a parameter triple, its largest depth, and what the
  constructor guarantees of an instance: depths that are not negative, a pattern as
  long as the key space, seed actions that cover the largest depth, and a pattern
  reference that has been handed out.
\<close>

definition key_space_size :: "plays \<Rightarrow> nat" where
  "key_space_size params =
     (case params of (self_depth, op_depth, op_openings_depth) \<Rightarrow>
        length (create_lookup_table_keys (nat self_depth) (nat op_depth) (nat op_openings_depth)))"

definition largest_depth :: "plays \<Rightarrow> int" where
  "largest_depth params =
     (case params of (self_depth, op_depth, op_openings_depth) \<Rightarrow>
        max self_depth (max op_depth op_openings_depth))"

definition well_formed :: "gambler \<Rightarrow> world \<Rightarrow> bool" where
  "well_formed g w =
     (case parameters g of (self_depth, op_depth, op_openings_depth) \<Rightarrow>
        0 \<le> self_depth \<and> 0 \<le> op_depth \<and> 0 \<le> op_openings_depth
        \<and> length (heap w (pattern g)) = key_space_size (parameters g)
        \<and> largest_depth (parameters g) \<le> int (length (initial_actions g))
        \<and> pattern g < next_addr w)"

definition unit_weights :: "real list \<Rightarrow> bool" where
  "unit_weights xs = list_all (\<lambda>x. 0 \<le> x \<and> x \<le> 1) xs"

text \<open>
  The example: a store with one list of four weights, the memory-one instance that
  \<^verbatim>\<open>EvolvableGambler(pattern=..., parameters=(1, 1, 0), initial_actions=(C,))\<close> builds
  from it, and random sources whose first draws push the first weight above 1 and the
  second below 0.
\<close>

definition initial_world :: world where
  "initial_world =
     \<lparr>heap = (\<lambda>a. if a = 0 then [19/20, 1/20, 1/2, 1/2] else []),
      next_addr = 1,
      np_random = (\<lambda>i. 0),
      py_random = (\<lambda>i. if i = 0 then 9/10 else if i = 1 then 1/10 else 3/4),
      py_randbelow = (\<lambda>i. 1)\<rparr>"

definition example_world :: world where
  "example_world =
     initial_world\<lparr>heap := (heap initial_world)(1 := heap initial_world 0), next_addr := 2\<rparr>"

definition example_gambler :: "real option \<Rightarrow> gambler" where
  "example_gambler mp =
     \<lparr>parameters = (1, 1, 0), pattern = 1, initial_actions = [C],
      mutation_probability = mp,
      lookup = zip (create_lookup_table_keys 1 1 0) [19/20, 1/20, 1/2, 1/2]\<rparr>"

text \<open>
  A table for \<^verbatim>\<open>Gambler.strategy\<close> holding both boundary weights, an action and a
  proper probability; and \<^verbatim>\<open>str\<close> and \<^verbatim>\<open>float\<close> on the three weights of the example,
  where they agree with Python (\<^verbatim>\<open>str(0.95) == '0.95'\<close>, \<^verbatim>\<open>float('0.95') == 0.95\<close>, and
  so on); their values elsewhere are not used.
\<close>

definition example_table :: "(key \<times> actions_or_float) list" where
  "example_table = zip (create_lookup_table_keys 1 1 0) [Float 1, Float 0, Action D, Float (1/2)]"

definition example_str_float :: "real \<Rightarrow> string" where
  "example_str_float v =
     (if v = 19/20 then ''0.95'' else if v = 1/20 then ''0.05'' else if v = 1/2 then ''0.5''
      else ''nan'')"

definition example_float_of_str :: "string \<Rightarrow> error + real" where
  "example_float_of_str s =
     (if s = ''0.95'' then Inr (19/20) else if s = ''0.05'' then Inr (1/20)
      else if s = ''0.5'' then Inr (1/2) else Inl ValueError)"


section \<open>Properties of the store, the key space and the constructor\<close>

lemma fold_preserves:
  assumes "P w" and "\<And>i v. P v \<Longrightarrow> P (f i v)"
  shows "P (fold f js w)"
  using assms(1) by (induction js arbitrary: w) (simp_all add: assms(2))

lemma length_action_sequences: "length (action_sequences n) = 2 ^ n"
  by (induction n) simp_all

lemma length_create_lookup_table_keys:
  "length (create_lookup_table_keys p q r) = 2 ^ p * 2 ^ q * 2 ^ r"
  by (simp add: create_lookup_table_keys_def length_concat comp_def sum_list_triv
      length_action_sequences)

lemma LookerUp_init_Inr:
  assumes "0 \<le> sd" "0 \<le> od" "0 \<le> ood"
    and "length vs = key_space_size (sd, od, ood)"
    and "largest_depth (sd, od, ood) \<le> int (length acts)"
  shows "LookerUp_init vs (sd, od, ood) acts
           = Inr (zip (create_lookup_table_keys (nat sd) (nat od) (nat ood)) vs)"
  using assms
  by (auto simp add: LookerUp_init_def from_pattern_def key_space_size_def largest_depth_def
      Let_def)

lemma EvolvableGambler_init_Inr:
  assumes "0 \<le> sd" "0 \<le> od" "0 \<le> ood"
    and "length (heap w p) = key_space_size (sd, od, ood)"
    and "largest_depth (sd, od, ood) \<le> int (length acts)"
  shows "EvolvableGambler_init smp p (sd, od, ood) acts mp w
           = Inr (\<lparr>parameters = (sd, od, ood), pattern = next_addr w, initial_actions = acts,
                   mutation_probability = smp (heap w p) (sd, od, ood) acts mp,
                   lookup = zip (create_lookup_table_keys (nat sd) (nat od) (nat ood)) (heap w p)\<rparr>,
                  w\<lparr>heap := (heap w)(next_addr w := heap w p), next_addr := Suc (next_addr w)\<rparr>)"
  using assms
  by (simp add: EvolvableGambler_init_def list_new_def LookerUp_init_Inr)

text \<open>The constructor only returns well-formed instances, each with a list of its own.\<close>

lemma EvolvableGambler_init_well_formed:
  assumes "EvolvableGambler_init smp p params acts mp w = Inr (g, w')"
  shows "well_formed g w' \<and> pattern g = next_addr w \<and> heap w' (pattern g) = heap w p"
proof -
  obtain sd od ood where params: "params = (sd, od, ood)"
    by (cases params)
  from assms show ?thesis
    unfolding params
    by (auto simp add: EvolvableGambler_init_def LookerUp_init_def from_pattern_def list_new_def
        well_formed_def key_space_size_def largest_depth_def Let_def
        split: if_splits sum.splits)
qed

lemma example_constructed:
  "EvolvableGambler_init smp 0 (1, 1, 0) [C] mp initial_world
     = Inr (example_gambler (smp [19/20, 1/20, 1/2, 1/2] (1, 1, 0) [C] mp), example_world)"
  by (simp add: EvolvableGambler_init_def LookerUp_init_def from_pattern_def list_new_def
      create_lookup_table_keys_def initial_world_def example_world_def example_gambler_def Let_def)

lemma example_well_formed: "well_formed (example_gambler mp) example_world"
  by (simp add: well_formed_def key_space_size_def largest_depth_def create_lookup_table_keys_def
      initial_world_def example_world_def example_gambler_def)

section \<open>Mutation\<close>

lemma mutate_step_skip: "\<not> rs ! i < mp \<Longrightarrow> mutate_step a mp rs i w = w"
  by (simp add: mutate_step_def)

lemma unit_weights_update:
  "unit_weights xs \<Longrightarrow> 0 \<le> v \<Longrightarrow> v \<le> 1 \<Longrightarrow> unit_weights (xs[i := v])"
  unfolding unit_weights_def list_all_iff
  using set_update_subset_insert [of xs i v] by auto

text \<open>
  One step of the loop keeps all weights in the unit interval: the entry written at
  \<open>i\<close> is clamped whatever the offset was, the other entries are not touched.
\<close>

lemma mutate_step_unit:
  assumes "unit_weights (heap w a)"
  shows "unit_weights (heap (mutate_step a mp rs i w) a)"
proof (cases "i < length (heap w a)")
  case True
  then show ?thesis using assms
    by (simp add: mutate_step_def list_store_def random_uniform_def random_random_def Let_def unit_weights_update)
next
  case False
  then show ?thesis using assms
    by (simp add: mutate_step_def list_store_def random_uniform_def random_random_def Let_def list_update_beyond)
qed

text \<open>
  C6: for a pattern whose entries all lie in \<open>[0, 1]\<close> and any mutation probability,
  \<^verbatim>\<open>mutate_pattern\<close> returns the reference it was given and every entry of the list
  there lies in \<open>[0, 1]\<close> again, whatever offsets were drawn. The only way not to
  return is the \<open>TypeError\<close> of the probability \<^verbatim>\<open>None\<close> on a pattern that is not
  empty.
\<close>

theorem mutate_pattern_unit_interval:
  assumes "\<forall>x\<in>set (heap w a). 0 \<le> x \<and> x \<le> 1"
  shows "case mutate_pattern a mp w of
           Inl e \<Rightarrow> mp = None \<and> heap w a \<noteq> []
         | Inr (r, w') \<Rightarrow> r = a \<and> (\<forall>x\<in>set (heap w' r). 0 \<le> x \<and> x \<le> 1)"
proof (cases mp)
  case None
  then show ?thesis using assms
    by (simp add: mutate_pattern_def np_random_random_def Let_def)
next
  case (Some p)
  have "unit_weights (heap (w\<lparr>np_random := f\<rparr>) a)" for f
    using assms by (simp add: unit_weights_def list_all_iff)
  then have "unit_weights (heap (fold (mutate_step a p rs) js (w\<lparr>np_random := f\<rparr>)) a)"
    for rs js f
    by (rule fold_preserves [where P = "\<lambda>v. unit_weights (heap v a)"]) (rule mutate_step_unit)
  then show ?thesis using Some
    by (simp add: mutate_pattern_def np_random_random_def Let_def unit_weights_def list_all_iff)
qed

text \<open>
  In the example every weight is mutated (probability 1): the first is pushed to 1.15
  and clamped to 1, the second to -0.15 and clamped to 0.
\<close>

theorem mutate_pattern_unit_interval_witness:
  "unit_weights (heap example_world 1)
   \<and> (case mutate_pattern 1 (Some 1) example_world of
        Inl e \<Rightarrow> False
      | Inr (r, w') \<Rightarrow> heap w' r = [1, 0, 5/8, 5/8] \<and> unit_weights (heap w' r))"
proof -
  have h: "\<forall>x\<in>set (heap example_world 1). 0 \<le> x \<and> x \<le> 1"
    by (simp add: example_world_def initial_world_def)
  have "heap (snd (projr (mutate_pattern 1 (Some 1) example_world))) 1 = [1, 0, 5/8, 5/8]"
    by (simp add: mutate_pattern_def np_random_random_def mutate_step_def random_uniform_def random_random_def
        list_store_def example_world_def initial_world_def Let_def upt_conv_Cons)
  with h mutate_pattern_unit_interval [OF h, of "Some 1"] show ?thesis
    by (auto simp add: unit_weights_def list_all_iff split: sum.splits)
qed

text \<open>
  C1: \<^verbatim>\<open>mutate()\<close> should return a new instance and leave the pattern of the instance
  it is called on as it was. It does return a new instance with a list of its own,
  but \<^verbatim>\<open>mutate_pattern\<close> is handed \<^verbatim>\<open>self.pattern\<close> itself and writes into it: in the
  example (probability 1) the pattern of the original instance is
  \<open>[0.95, 0.05, 0.5, 0.5]\<close> before the call and \<open>[1, 0, 0.625, 0.625]\<close> after it.
\<close>

theorem mutate_writes_into_own_pattern:
  "(case mutate smp (example_gambler (Some 1)) example_world of
      Inl e \<Rightarrow> False
    | Inr (g', w') \<Rightarrow>
        pattern g' \<noteq> pattern (example_gambler (Some 1))
        \<and> heap example_world (pattern (example_gambler (Some 1))) = [19/20, 1/20, 1/2, 1/2]
        \<and> heap w' (pattern (example_gambler (Some 1))) = [1, 0, 5/8, 5/8])"
  by (simp add: mutate_def mutate_pattern_def np_random_random_def mutate_step_def
      random_uniform_def random_random_def list_store_def choice_def randbelow_def
      EvolvableGambler_init_def LookerUp_init_def from_pattern_def list_new_def
      create_lookup_table_keys_def example_world_def initial_world_def example_gambler_def
      Let_def upt_conv_Cons)

text \<open>The seed actions that \<^verbatim>\<open>mutate\<close> samples: one draw for each, in order.\<close>

lemma choices_eq:
  "choices n w = (map (\<lambda>i. [C, D] ! (py_randbelow w i mod 2)) [0..<n],
                  w\<lparr>py_randbelow := (\<lambda>i. py_randbelow w (i + n))\<rparr>)"
proof (induction n arbitrary: w)
  case 0
  show ?case by simp
next
  case (Suc n)
  show ?case
    by (simp only: choices.simps choice_def randbelow_def Let_def split_conv Suc map_upt_Suc)
       (simp add: numeral_2_eq_2)
qed

lemma fold_mutate_step_skip:
  assumes "\<forall>i\<in>set js. \<not> rs ! i < mp"
  shows "fold (mutate_step a mp rs) js w = w"
  using assms by (induction js) (simp_all add: mutate_step_skip)

text \<open>
  With probability 0 no comparison \<^verbatim>\<open>randoms[i] < mutation_probability\<close> succeeds,
  the samples of \<^verbatim>\<open>np.random.random\<close> being non-negative, and the loop writes nothing.
\<close>

lemma mutate_pattern_zero:
  assumes "\<forall>i. 0 \<le> np_random w i"
  shows "mutate_pattern a (Some 0) w
           = Inr (a, w\<lparr>np_random := (\<lambda>i. np_random w (i + length (heap w a)))\<rparr>)"
proof -
  have "fold (mutate_step a 0 (map (np_random w) [0..<n])) [0..<n] v = v" for n v
    by (rule fold_mutate_step_skip) (simp add: assms not_less)
  then show ?thesis
    by (simp add: mutate_pattern_def np_random_random_def Let_def)
qed

text \<open>
  C7: \<^verbatim>\<open>mutate()\<close> on a well-formed instance whose mutation probability is 0.0 returns
  an instance whose pattern equals the pattern of the original entry for entry (and
  the original's list is not changed either), with the same parameters; its seed
  actions are sampled anew, one draw of \<^verbatim>\<open>choice((C, D))\<close> each, and there are
  \<open>max(self_depth, opponent_depth, opponent_opening_depth)\<close> of them.
\<close>

theorem mutate_zero_probability:
  assumes "well_formed self w"
    and "mutation_probability self = Some 0"
    and "\<forall>i. 0 \<le> np_random w i"
  shows "\<exists>g' w'. mutate smp self w = Inr (g', w')
           \<and> heap w' (pattern g') = heap w (pattern self)
           \<and> heap w' (pattern self) = heap w (pattern self)
           \<and> parameters g' = parameters self
           \<and> initial_actions g' = map (\<lambda>i. [C, D] ! (py_randbelow w i mod 2))
                 [0..<nat (largest_depth (parameters self))]
           \<and> length (initial_actions g') = nat (largest_depth (parameters self))"
proof -
  obtain sd od ood where p: "parameters self = (sd, od, ood)"
    by (cases "parameters self")
  define acts where "acts = map (\<lambda>i. [C, D] ! (py_randbelow w i mod 2))
    [0..<nat (max sd (max od ood))]"
  define w2 where "w2 = w\<lparr>np_random := (\<lambda>i. np_random w (i + length (heap w (pattern self)))),
    py_randbelow := (\<lambda>i. py_randbelow w (i + nat (max sd (max od ood))))\<rparr>"
  from assms(1) p have wf: "0 \<le> sd" "0 \<le> od" "0 \<le> ood"
    "length (heap w2 (pattern self)) = key_space_size (sd, od, ood)"
    by (simp_all add: well_formed_def w2_def)
  have len: "largest_depth (sd, od, ood) \<le> int (length acts)"
    using wf(1-3) by (auto simp add: acts_def largest_depth_def)
  have "mutate smp self w
          = EvolvableGambler_init smp (pattern self) (sd, od, ood) acts (Some 0) w2"
    using assms(2,3) p
    by (simp add: mutate_def mutate_pattern_zero choices_eq Let_def acts_def w2_def)
  also note EvolvableGambler_init_Inr [OF wf len]
  finally show ?thesis
    using p assms(1) by (simp add: largest_depth_def acts_def w2_def well_formed_def)
qed

theorem mutate_zero_probability_witness:
  "well_formed (example_gambler (Some 0)) example_world
   \<and> (case mutate (\<lambda>vs ps acts m. m) (example_gambler (Some 0)) example_world of
        Inl e \<Rightarrow> False
      | Inr (g', w') \<Rightarrow>
          heap w' (pattern g') = [19/20, 1/20, 1/2, 1/2] \<and> initial_actions g' = [D])"
proof -
  have mp: "mutation_probability (example_gambler (Some 0)) = Some 0"
    by (simp add: example_gambler_def)
  have np: "\<forall>i. 0 \<le> np_random example_world i"
    by (simp add: example_world_def initial_world_def)
  from mutate_zero_probability [OF example_well_formed mp np, where smp = "\<lambda>vs ps acts m. m"]
  obtain g' w' where
    m: "mutate (\<lambda>vs ps acts m. m) (example_gambler (Some 0)) example_world = Inr (g', w')"
    and h: "heap w' (pattern g') = heap example_world (pattern (example_gambler (Some 0)))"
    and a: "initial_actions g' = map (\<lambda>i. [C, D] ! (py_randbelow example_world i mod 2))
              [0..<nat (largest_depth (parameters (example_gambler (Some 0))))]"
    by blast
  have "heap example_world (pattern (example_gambler (Some 0))) = [19/20, 1/20, 1/2, 1/2]"
    by (simp add: example_gambler_def example_world_def initial_world_def)
  moreover have "map (\<lambda>i. [C, D] ! (py_randbelow example_world i mod 2))
      [0..<nat (largest_depth (parameters (example_gambler (Some 0))))] = [D]"
    by (simp add: largest_depth_def example_gambler_def example_world_def initial_world_def)
  ultimately show ?thesis
    using m h a by (simp add: example_well_formed)
qed

section \<open>Crossover\<close>

text \<open>The split point \<^verbatim>\<open>random.randint(0, len(pattern1))\<close> lies in \<open>[0, len]\<close>, ends included.\<close>

lemma randint_range: "fst (randint 0 n w) \<le> n"
  by (simp add: randint_def randbelow_def less_Suc_eq_le [symmetric])

text \<open>
  C8: \<^verbatim>\<open>self.crossover(self)\<close> on a well-formed instance returns an offspring whose
  pattern equals the pattern of \<open>self\<close> entry for entry, whatever split point is drawn;
  the offspring's list is a new one and the list of \<open>self\<close> is not changed.
\<close>

theorem crossover_self:
  assumes "well_formed self w"
  shows "\<exists>g' w'. crossover smp self self w = Inr (g', w')
           \<and> heap w' (pattern g') = heap w (pattern self)
           \<and> heap w' (pattern self) = heap w (pattern self)
           \<and> pattern g' \<noteq> pattern self"
proof -
  obtain sd od ood where p: "parameters self = (sd, od, ood)"
    by (cases "parameters self")
  show ?thesis
    using assms p
    by (simp add: crossover_def randint_def randbelow_def list_new_def well_formed_def
        EvolvableGambler_init_Inr largest_depth_def Let_def)
qed

theorem crossover_self_witness:
  "well_formed (example_gambler None) example_world
   \<and> fst (randint 0 (length (heap example_world 1)) example_world) = 1
   \<and> (case crossover (\<lambda>vs ps acts m. m) (example_gambler None) (example_gambler None)
             example_world of
        Inl e \<Rightarrow> False
      | Inr (g', w') \<Rightarrow> heap w' (pattern g') = [19/20, 1/20, 1/2, 1/2])"
proof -
  have r: "fst (randint 0 (length (heap example_world 1)) example_world) = 1"
    by (simp add: randint_def randbelow_def example_world_def initial_world_def)
  from crossover_self [OF example_well_formed, where smp = "\<lambda>vs ps acts m. m" and mp1 = None]
  obtain g' w' where
    c: "crossover (\<lambda>vs ps acts m. m) (example_gambler None) (example_gambler None) example_world
          = Inr (g', w')"
    and h: "heap w' (pattern g') = heap example_world (pattern (example_gambler None))"
    by blast
  have "heap example_world (pattern (example_gambler None)) = [19/20, 1/20, 1/2, 1/2]"
    by (simp add: example_gambler_def example_world_def initial_world_def)
  then show ?thesis
    using r c h by (simp add: example_well_formed)
qed

section \<open>Receiving a vector\<close>

text \<open>
  C2: on an instance with non-negative depths, \<^verbatim>\<open>receive_vector(vector)\<close> fails with a
  \<open>ConfigurationError\<close> when the length of the vector is not the size of the key space
  of the instance's parameters; when it is, the pattern becomes the vector and the
  table is the one built from that same vector. (On the failure the pattern has
  already been replaced: the error carries the instance in that state.)
\<close>

theorem receive_vector_checks_length:
  assumes "parameters self = (sd, od, ood)" and "0 \<le> sd" and "0 \<le> od" and "0 \<le> ood"
  shows "receive_vector self vector w =
           (if length (heap w vector) \<noteq> key_space_size (parameters self)
            then Inl (ConfigurationError, self\<lparr>pattern := vector\<rparr>)
            else Inr (self\<lparr>pattern := vector,
                   lookup := zip (create_lookup_table_keys (nat sd) (nat od) (nat ood))
                               (heap w vector)\<rparr>))"
  using assms
  by (auto simp add: receive_vector_def from_pattern_def key_space_size_def Let_def)

theorem receive_vector_checks_length_witness:
  "receive_vector (example_gambler None) 0 example_world
     = Inr ((example_gambler None)\<lparr>pattern := 0\<rparr>)
   \<and> receive_vector (example_gambler None) 7 example_world
     = Inl (ConfigurationError, (example_gambler None)\<lparr>pattern := 7\<rparr>)"
proof -
  have p: "parameters (example_gambler None) = (1, 1, 0)"
    by (simp add: example_gambler_def)
  have k: "key_space_size (1, 1, 0) = 4"
    by (simp add: key_space_size_def create_lookup_table_keys_def)
  show ?thesis
    using receive_vector_checks_length [OF p, of 0 example_world]
      receive_vector_checks_length [OF p, of 7 example_world]
    by (simp add: p k example_gambler_def example_world_def initial_world_def)
qed

section \<open>The decision of a Gambler\<close>

text \<open>
  C4: whatever the history, when the lookup of \<^verbatim>\<open>Gambler.strategy\<close> yields the weight
  1.0 the action is Cooperate and when it yields 0.0 the action is Defect, for every
  sample \<open>u\<close> of \<^verbatim>\<open>random.random()\<close>, which lies in \<open>[0, 1)\<close>; when the lookup yields an
  action, that action is returned and the random source is left as it was.
\<close>

theorem Gambler_strategy_boundary_weights:
  assumes "0 \<le> py_random w 0" and "py_random w 0 < 1"
  shows "(LookerUp_strategy params table seed own opp = Inr (Float 1)
            \<longrightarrow> (\<exists>w'. Gambler_strategy params table seed own opp w = Inr (C, w')))
       \<and> (LookerUp_strategy params table seed own opp = Inr (Float 0)
            \<longrightarrow> (\<exists>w'. Gambler_strategy params table seed own opp w = Inr (D, w')))
       \<and> (LookerUp_strategy params table seed own opp = Inr (Action a)
            \<longrightarrow> Gambler_strategy params table seed own opp w = Inr (a, w))"
  using assms
  by (simp add: Gambler_strategy_def random_choice_def random_random_def not_less)

theorem Gambler_strategy_boundary_weights_witness:
  "LookerUp_strategy (1, 1, 0) example_table [C] [D, C] [C, C] = Inr (Float 1)
   \<and> fst (projr (Gambler_strategy (1, 1, 0) example_table [C] [D, C] [C, C] example_world)) = C
   \<and> LookerUp_strategy (1, 1, 0) example_table [C] [C] [D] = Inr (Float 0)
   \<and> fst (projr (Gambler_strategy (1, 1, 0) example_table [C] [C] [D] example_world)) = D
   \<and> LookerUp_strategy (1, 1, 0) example_table [C] [D] [C] = Inr (Action D)
   \<and> Gambler_strategy (1, 1, 0) example_table [C] [D] [C] example_world = Inr (D, example_world)"
proof -
  have r: "0 \<le> py_random example_world 0" "py_random example_world 0 < 1"
    by (simp_all add: example_world_def initial_world_def)
  have l: "LookerUp_strategy (1, 1, 0) example_table [C] [D, C] [C, C] = Inr (Float 1)"
    "LookerUp_strategy (1, 1, 0) example_table [C] [C] [D] = Inr (Float 0)"
    "LookerUp_strategy (1, 1, 0) example_table [C] [D] [C] = Inr (Action D)"
    by (simp_all add: LookerUp_strategy_def history_window_def get_def example_table_def
        create_lookup_table_keys_def)
  show ?thesis
    using Gambler_strategy_boundary_weights [OF r, of "(1, 1, 0)" example_table "[C]" "[D, C]" "[C, C]" D]
      Gambler_strategy_boundary_weights [OF r, of "(1, 1, 0)" example_table "[C]" "[C]" "[D]" D]
      Gambler_strategy_boundary_weights [OF r, of "(1, 1, 0)" example_table "[C]" "[D]" "[C]" D]
    by (auto simp add: l)
qed

section \<open>The four-vector of Anand\<close>

text \<open>
  C5: with parameters \<open>(1, 1, 0)\<close> and the pattern \<open>[7/9, 0, 8/9, 0]\<close>, the weight looked up
  is \<open>7/9\<close> when both players' last actions are Cooperate and \<open>8/9\<close> when the own last
  action is Defect and the opponent's is Cooperate; and \<^verbatim>\<open>Anand.receive_match_attributes\<close>
  stores that same pattern under the convention (C,C), (C,D), (D,C), (D,D), with the
  same two weights at (C,C) and (D,C).
\<close>

theorem zd_four_vector_lookup:
  "(\<exists>table. from_pattern [7/9, 0, 8/9, 0 :: real] 1 1 0 = Inr table
       \<and> LookerUp_strategy (1, 1, 0) table seed (own @ [C]) (opp @ [C]) = Inr (7/9)
       \<and> LookerUp_strategy (1, 1, 0) table seed (own @ [D]) (opp @ [C]) = Inr (8/9))
   \<and> (\<exists>self' v. receive_match_attributes self = Inr self' \<and> four_vector self' = Some v
       \<and> map snd v = [7/9, 0, 8/9, 0]
       \<and> map_of v (C, C) = Some (7/9) \<and> map_of v (D, C) = Some (8/9))"
  by (simp add: from_pattern_def create_lookup_table_keys_def LookerUp_strategy_def
      history_window_def get_def receive_match_attributes_def set_four_vector_def Let_def)

text \<open>
  C10: \<^verbatim>\<open>set_initial_four_vector(v)\<close> leaves the instance as it is for every \<open>v\<close>;
  \<^verbatim>\<open>receive_match_attributes\<close> sets the four-vector to \<open>(7/9, 0, 8/9, 0)\<close> whatever the
  state before and whatever four-vector had been supplied.
\<close>

theorem set_initial_four_vector_no_op:
  "set_initial_four_vector self v = self
   \<and> receive_match_attributes self
       = Inr (self\<lparr>four_vector := Some [((C, C), 7/9), ((C, D), 0), ((D, C), 8/9), ((D, D), 0)]\<rparr>)
   \<and> receive_match_attributes (set_initial_four_vector self v) = receive_match_attributes self"
  by (simp add: set_initial_four_vector_def receive_match_attributes_def set_four_vector_def
      Let_def)

section \<open>Serialization round trip\<close>

lemma str_split_not_Nil: "str_split c s \<noteq> []"
  by (induction s) (simp_all split: list.splits)

lemma str_split_no_sep: "c \<notin> set s \<Longrightarrow> str_split c s = [s]"
  by (induction s) auto

lemma str_split_append:
  "c \<notin> set a \<Longrightarrow> str_split c (a @ c # rest) = a # str_split c rest"
  by (induction a) auto

lemma str_split_join:
  assumes "xs \<noteq> []" and "\<forall>x\<in>set xs. c \<notin> set x"
  shows "str_split c (str_join [c] xs) = xs"
  using assms
proof (induction "[c]" xs rule: str_join.induct)
  case 1
  then show ?case by simp
next
  case (2 x)
  then show ?case by (simp add: str_split_no_sep)
next
  case (3 x y ys)
  then show ?case by (simp add: str_split_append)
qed

lemma set_str_join:
  "set (str_join sep xs) \<subseteq> set sep \<union> (\<Union>x\<in>set xs. set x)"
  by (induction sep xs rule: str_join.induct) auto

lemma of_char_digit_char:
  assumes "n < 10"
  shows "(of_char (digit_char n) :: nat) = 48 + n"
proof -
  from assms have "n \<in> {0, 1, 2, 3, 4, 5, 6, 7, 8, 9}"
    by auto
  then show ?thesis
    by (auto simp add: digit_char_def)
qed

lemma is_digit_digit_char: "n < 10 \<Longrightarrow> is_digit (digit_char n)"
  by (simp add: is_digit_def of_char_digit_char)

lemma str_nat_digits: "list_all is_digit (str_nat n)"
proof (induction n rule: str_nat.induct)
  case (1 n)
  show ?case
  proof (cases "n < 10")
    case True
    then show ?thesis by (subst str_nat.simps) (simp add: is_digit_digit_char)
  next
    case False
    with 1 show ?thesis by (subst str_nat.simps) (simp add: is_digit_digit_char)
  qed
qed

lemma str_nat_not_Nil: "str_nat n \<noteq> []"
  by (subst str_nat.simps) simp

lemma foldl_str_nat:
  "foldl (\<lambda>n c. 10 * n + (of_char c - 48)) 0 (str_nat n) = n"
proof (induction n rule: str_nat.induct)
  case (1 n)
  show ?case
  proof (cases "n < 10")
    case True
    then show ?thesis by (subst str_nat.simps) (simp add: of_char_digit_char)
  next
    case False
    with 1 show ?thesis by (subst str_nat.simps) (simp add: of_char_digit_char)
  qed
qed

lemma nat_of_str_str_nat: "nat_of_str (str_nat n) = Inr n"
  by (simp add: nat_of_str_def str_nat_not_Nil str_nat_digits foldl_str_nat)

lemma is_digit_not_special:
  "is_digit c \<Longrightarrow> c \<noteq> CHR '':'' \<and> c \<noteq> CHR ''-''"
  by (auto simp add: is_digit_def)

lemma str_nat_no_colon: "CHR '':'' \<notin> set (str_nat n)"
  using str_nat_digits [of n] is_digit_not_special by (auto simp add: list_all_iff)

lemma int_of_str_str_int: "0 \<le> i \<Longrightarrow> int_of_str (str_int i) = Inr i"
proof -
  assume i: "0 \<le> i"
  obtain c ds where s: "str_nat (nat i) = c # ds"
    using str_nat_not_Nil [of "nat i"] by (cases "str_nat (nat i)") auto
  have "is_digit c"
    using str_nat_digits [of "nat i"] by (simp add: s)
  then have "c \<noteq> CHR ''-''"
    using is_digit_not_special by blast
  then show ?thesis
    using i nat_of_str_str_nat [of "nat i"] by (simp add: int_of_str_def str_int_def s)
qed

lemma str_int_no_colon: "0 \<le> i \<Longrightarrow> CHR '':'' \<notin> set (str_int i)"
  by (simp add: str_int_def str_nat_no_colon)

lemma str_to_actions_actions_to_str: "str_to_actions (actions_to_str as) = Inr as"
  by (induction as) (simp_all add: str_to_actions_def actions_to_str_def split: action.splits)

lemma actions_to_str_no_colon: "CHR '':'' \<notin> set (actions_to_str as)"
  by (auto simp add: actions_to_str_def split: action.splits)

lemma traverse_float:
  "\<forall>v\<in>set vs. float_text_ok sf fs v \<Longrightarrow> traverse fs (map sf vs) = Inr vs"
  by (induction vs) (simp_all add: float_text_ok_def)

lemma key_space_size_pos: "0 < key_space_size params"
  by (cases params) (simp add: key_space_size_def length_create_lookup_table_keys)

lemma split_serialized:
  assumes "0 \<le> sd" "0 \<le> od" "0 \<le> ood" and "\<forall>v\<in>set vs. float_text_ok sf fs v"
  shows "str_split CHR '':'' (str_int sd @ '':'' @ str_int od @ '':'' @ str_int ood @ '':''
           @ str_join ''|'' (map sf vs) @ '':'' @ actions_to_str acts)
         = [str_int sd, str_int od, str_int ood, str_join ''|'' (map sf vs), actions_to_str acts]"
proof -
  have "CHR '':'' \<notin> set (str_join ''|'' (map sf vs))"
    using set_str_join [of "''|''" "map sf vs"] assms(4)
    by (auto simp add: float_text_ok_def)
  then show ?thesis
    using assms(1-3)
    by (simp add: str_split_append str_int_no_colon str_split_no_sep actions_to_str_no_colon)
qed

lemma deserialize_serialize:
  assumes "well_formed g w" and "\<forall>v\<in>set (heap w (pattern g)). float_text_ok sf fs v"
  shows "deserialize_parameters smp fs (serialize_parameters sf g w) w
           = EvolvableGambler_init smp (next_addr w) (parameters g) (initial_actions g) None
               (snd (list_new (heap w (pattern g)) w))"
proof -
  obtain sd od ood where p: "parameters g = (sd, od, ood)"
    by (cases "parameters g")
  from assms(1) p have nonneg: "0 \<le> sd" "0 \<le> od" "0 \<le> ood"
    by (simp_all add: well_formed_def)
  from assms(1) have "heap w (pattern g) \<noteq> []"
    using key_space_size_pos [of "parameters g"] by (auto simp add: well_formed_def p)
  then have pat: "str_split CHR ''|'' (str_join ''|'' (map sf (heap w (pattern g))))
      = map sf (heap w (pattern g))"
    using assms(2) by (intro str_split_join) (auto simp add: float_text_ok_def)
  have ser: "str_split CHR '':'' (serialize_parameters sf g w)
      = [str_int sd, str_int od, str_int ood, str_join ''|'' (map sf (heap w (pattern g))),
         actions_to_str (initial_actions g)]"
    unfolding serialize_parameters_def p prod.case
    by (rule split_serialized [OF nonneg assms(2)])
  show ?thesis
    by (simp add: deserialize_parameters_def ser p int_of_str_str_int nonneg pat
        traverse_float [OF assms(2)] str_to_actions_actions_to_str list_new_def)
qed

text \<open>
  C3: for a well-formed instance whose weights survive \<open>str\<close> and \<open>float\<close>,
  deserializing the serialized instance succeeds and yields an instance with the same
  parameters, the same pattern and the same seed actions; the serialized text is the
  three depths, the weights joined by \<open>|\<close> and the seed actions as letters, joined
  by \<open>:\<close>.
\<close>

theorem serialize_round_trip:
  assumes "well_formed g w" and "\<forall>v\<in>set (heap w (pattern g)). float_text_ok sf fs v"
  shows "\<exists>g' w'. deserialize_parameters smp fs (serialize_parameters sf g w) w = Inr (g', w')
           \<and> parameters g' = parameters g
           \<and> heap w' (pattern g') = heap w (pattern g)
           \<and> initial_actions g' = initial_actions g
           \<and> serialize_parameters sf g w
               = str_join '':'' [str_int (fst (parameters g)), str_int (fst (snd (parameters g))),
                   str_int (snd (snd (parameters g))),
                   str_join ''|'' (map sf (heap w (pattern g))),
                   actions_to_str (initial_actions g)]"
proof -
  obtain sd od ood where p: "parameters g = (sd, od, ood)"
    by (cases "parameters g")
  from assms(1) p have wf: "0 \<le> sd" "0 \<le> od" "0 \<le> ood"
    "length (heap (snd (list_new (heap w (pattern g)) w)) (next_addr w)) = key_space_size (sd, od, ood)"
    "largest_depth (sd, od, ood) \<le> int (length (initial_actions g))"
    by (simp_all add: well_formed_def list_new_def)
  have "deserialize_parameters smp fs (serialize_parameters sf g w) w
          = EvolvableGambler_init smp (next_addr w) (sd, od, ood) (initial_actions g) None
              (snd (list_new (heap w (pattern g)) w))"
    using deserialize_serialize [OF assms] by (simp add: p)
  also note EvolvableGambler_init_Inr [OF wf]
  finally show ?thesis
    using p assms(1) by (simp add: list_new_def serialize_parameters_def well_formed_def)
qed

theorem serialize_round_trip_witness:
  "well_formed (example_gambler (Some 1)) example_world
   \<and> serialize_parameters example_str_float (example_gambler (Some 1)) example_world
       = ''1:1:0:0.95|0.05|0.5|0.5:C''
   \<and> (case deserialize_parameters (\<lambda>vs ps acts m. m) example_float_of_str
             ''1:1:0:0.95|0.05|0.5|0.5:C'' example_world of
        Inl e \<Rightarrow> False
      | Inr (g', w') \<Rightarrow>
          parameters g' = (1, 1, 0) \<and> heap w' (pattern g') = [19/20, 1/20, 1/2, 1/2]
          \<and> initial_actions g' = [C])"
proof -
  have f: "\<forall>v\<in>set (heap example_world (pattern (example_gambler (Some 1)))).
      float_text_ok example_str_float example_float_of_str v"
    by (simp add: float_text_ok_def example_str_float_def example_float_of_str_def
        example_gambler_def example_world_def initial_world_def)
  have s: "serialize_parameters example_str_float (example_gambler (Some 1)) example_world
      = ''1:1:0:0.95|0.05|0.5|0.5:C''"
    by (simp add: serialize_parameters_def str_int_def str_nat.simps digit_char_def
        actions_to_str_def example_str_float_def example_gambler_def example_world_def
        initial_world_def)
  from serialize_round_trip [OF example_well_formed f, where smp = "\<lambda>vs ps acts m. m"]
  obtain g' w' where
    d: "deserialize_parameters (\<lambda>vs ps acts m. m) example_float_of_str
          (serialize_parameters example_str_float (example_gambler (Some 1)) example_world)
          example_world = Inr (g', w')"
    and r: "parameters g' = parameters (example_gambler (Some 1))"
      "heap w' (pattern g') = heap example_world (pattern (example_gambler (Some 1)))"
      "initial_actions g' = initial_actions (example_gambler (Some 1))"
    by blast
  have "parameters (example_gambler (Some 1)) = (1, 1, 0)"
    "heap example_world (pattern (example_gambler (Some 1))) = [19/20, 1/20, 1/2, 1/2]"
    "initial_actions (example_gambler (Some 1)) = [C]"
    by (simp_all add: example_gambler_def example_world_def initial_world_def)
  then show ?thesis
    using d r s by (simp add: example_well_formed)
qed




end
